theory Spec2Isabelle
  imports Complex_Main "HOL-Library.AList"
begin

section \<open>Numbers and their decimal rendering\<close>

text \<open>
  The script works on Python floats that stand for geographic degrees. A coordinate is
  modelled as a rational number: every finite float is one, and the two operations the
  script applies to a coordinate, \<^verbatim>\<open>round(x, 6)\<close> and the format \<^verbatim>\<open>{x:.6f}\<close>, are
  defined by Python on the exact value of the float (correct rounding, ties to even).
  The arithmetic of \<^verbatim>\<open>random.uniform\<close> is taken exact. Not-a-number, the infinities and
  the negative zero are not coordinates and have no counterpart here.
\<close>

type_synonym coord = rat

text \<open>A sample point is the pair (latitude, longitude), in this order, as in the source.\<close>

type_synonym sample_point = "coord \<times> coord"

definition round_half_even :: "rat \<Rightarrow> int" where
  "round_half_even r =
     (let f = \<lfloor>r\<rfloor>; d = r - of_int f
      in if d < 1 / 2 then f
         else if 1 / 2 < d then f + 1
         else if even f then f else f + 1)"

text \<open>\<^verbatim>\<open>round(x, 6)\<close>\<close>

definition py_round6 :: "coord \<Rightarrow> coord" where
  "py_round6 x = of_int (round_half_even (x * 1000000)) / 1000000"

definition digit_char :: "nat \<Rightarrow> char" where
  "digit_char d = ''0123456789'' ! (d mod 10)"

text \<open>The decimal digits of a natural number, without leading zeros (\<^verbatim>\<open>str(n)\<close>).\<close>

fun show_nat :: "nat \<Rightarrow> string" where
  "show_nat n = (if n < 10 then [digit_char n] else show_nat (n div 10) @ [digit_char (n mod 10)])"

definition show_int :: "int \<Rightarrow> string" where
  "show_int i = (if i < 0 then CHR ''-'' # show_nat (nat (- i)) else show_nat (nat i))"

text \<open>The last \<open>w\<close> decimal digits of a number, zeros included.\<close>

fun fixed_digits :: "nat \<Rightarrow> nat \<Rightarrow> string" where
  "fixed_digits 0 k = []"
| "fixed_digits (Suc w) k = fixed_digits w (k div 10) @ [digit_char (k mod 10)]"

text \<open>Six digits, padded with zeros on the left: the fraction of the \<^verbatim>\<open>.6f\<close> format.\<close>

definition frac6 :: "nat \<Rightarrow> string" where
  "frac6 k = fixed_digits 6 k"

text \<open>
  \<^verbatim>\<open>f"{x:.6f}"\<close>: the sign of the value, the magnitude rounded to a whole number of
  millionths (ties to even), written as integer part, a point and six digits.
\<close>

definition fmt6 :: "coord \<Rightarrow> string" where
  "fmt6 x =
     (let n = nat (round_half_even (\<bar>x\<bar> * 1000000))
      in (if x < 0 then ''-'' else '''') @ show_nat (n div 1000000) @ ''.'' @ frac6 (n mod 1000000))"

text \<open>\<^verbatim>\<open>sep.join(parts)\<close>\<close>

fun join :: "string \<Rightarrow> string list \<Rightarrow> string" where
  "join sep [] = []"
| "join sep [x] = x"
| "join sep (x # y # ys) = x @ sep @ join sep (y # ys)"

section \<open>Formatting points for the API\<close>

text \<open>
  \<^verbatim>\<open>format_points_for_api\<close>: the loop appends one rendered point after the other to
  \<^verbatim>\<open>formatted_points\<close>, longitude before latitude, and the result is joined with \<^verbatim>\<open>;\<close>.
\<close>

definition format_point :: "sample_point \<Rightarrow> string" where
  "format_point p = (case p of (lat, lon) \<Rightarrow> fmt6 lon @ '','' @ fmt6 lat)"

definition format_points_for_api :: "sample_point list \<Rightarrow> string" where
  "format_points_for_api points =
     join '';'' (foldl (\<lambda>formatted_points p. formatted_points @ [format_point p]) [] points)"

section \<open>Reading the API string back\<close>

text \<open>
  Modelled from the spec: the parser of the API string, which the round trip needs and the
  repository does not have (it only writes the string). The inverse
  reading is written out here from the format's own description
  (\<^verbatim>\<open>lon,lat;lon,lat\<close>): the string is cut at every \<^verbatim>\<open>;\<close>, each piece at its
  \<^verbatim>\<open>,\<close>, and each field is read as a signed decimal number. The empty string, which is
  what an empty list is formatted to, reads back as the empty list.
\<close>

text \<open>\<^verbatim>\<open>s.split(c)\<close> for a one-character separator.\<close>

fun split_on :: "char \<Rightarrow> string \<Rightarrow> string list" where
  "split_on c [] = [[]]"
| "split_on c (x # xs) =
     (if x = c then [] # split_on c xs
      else (case split_on c xs of [] \<Rightarrow> [[x]] | y # ys \<Rightarrow> (x # y) # ys))"

definition is_digit :: "char \<Rightarrow> bool" where
  "is_digit c = (c \<in> set ''0123456789'')"

text \<open>The value of a digit character: its code less the code of \<^verbatim>\<open>0\<close>.\<close>

definition digit_val :: "char \<Rightarrow> nat" where
  "digit_val c = of_char c - 48"

definition nat_of_digits :: "string \<Rightarrow> nat" where
  "nat_of_digits s = foldl (\<lambda>acc c. 10 * acc + digit_val c) 0 s"

text \<open>An unsigned decimal: digits, a point, digits.\<close>

definition parse_unsigned :: "string \<Rightarrow> rat option" where
  "parse_unsigned s =
     (let ip = takeWhile (\<lambda>c. c \<noteq> CHR ''.'') s; rest = dropWhile (\<lambda>c. c \<noteq> CHR ''.'') s
      in case rest of
           [] \<Rightarrow> None
         | _ # fp \<Rightarrow>
             if ip \<noteq> [] \<and> list_all is_digit ip \<and> fp \<noteq> [] \<and> list_all is_digit fp
             then Some (of_nat (nat_of_digits ip) + of_nat (nat_of_digits fp) / 10 ^ length fp)
             else None)"

definition parse_fixed :: "string \<Rightarrow> rat option" where
  "parse_fixed s =
     (case s of
        [] \<Rightarrow> None
      | c # r \<Rightarrow> if c = CHR ''-'' then map_option uminus (parse_unsigned r) else parse_unsigned s)"

definition parse_point :: "string \<Rightarrow> sample_point option" where
  "parse_point piece =
     (case split_on CHR '','' piece of
        [lo, la] \<Rightarrow>
          (case parse_fixed lo of
             None \<Rightarrow> None
           | Some lon \<Rightarrow> (case parse_fixed la of None \<Rightarrow> None | Some lat \<Rightarrow> Some (lat, lon)))
      | _ \<Rightarrow> None)"

fun parse_all :: "string list \<Rightarrow> sample_point list option" where
  "parse_all [] = Some []"
| "parse_all (piece # pieces) =
     (case parse_point piece of
        None \<Rightarrow> None
      | Some p \<Rightarrow> (case parse_all pieces of None \<Rightarrow> None | Some ps \<Rightarrow> Some (p # ps)))"

definition parse_api_points :: "string \<Rightarrow> sample_point list option" where
  "parse_api_points s = (if s = [] then Some [] else parse_all (split_on CHR '';'' s))"

text \<open>
  The shape of a number in fixed notation with six decimals: an optional minus sign, at
  least one digit, a point, and exactly six digits.
\<close>

definition is_fixed6 :: "string \<Rightarrow> bool" where
  "is_fixed6 s =
     (let r = (case s of [] \<Rightarrow> [] | c # t \<Rightarrow> if c = CHR ''-'' then t else s);
          ip = takeWhile (\<lambda>c. c \<noteq> CHR ''.'') r;
          fp = drop 1 (dropWhile (\<lambda>c. c \<noteq> CHR ''.'') r)
      in ip \<noteq> [] \<and> list_all is_digit ip \<and> length fp = 6 \<and> list_all is_digit fp)"

section \<open>The point sampler\<close>

text \<open>
  The boundary is a shapely geometry, of which \<^verbatim>\<open>generate_malta_points\<close> reads the
  bounding box \<^verbatim>\<open>(minx, miny, maxx, maxy)\<close> and calls the two tests \<^verbatim>\<open>contains\<close>
  and \<^verbatim>\<open>touches\<close> on a point \<^verbatim>\<open>Point(longitude, latitude)\<close>. The geometry is a
  record of exactly these three: the library behind them is not part of the repository.
\<close>

record polygon =
  bounds :: "coord \<times> coord \<times> coord \<times> coord"
  contains :: "coord \<times> coord \<Rightarrow> bool"
  touches :: "coord \<times> coord \<Rightarrow> bool"

text \<open>
  The global generator of the module \<^verbatim>\<open>random\<close> is a state \<open>'g\<close> threaded through the
  calls, with \<^verbatim>\<open>random.random()\<close> as a step function. \<^verbatim>\<open>random.uniform(a, b)\<close> is
  \<^verbatim>\<open>a + (b - a) * random()\<close>.
\<close>

type_synonym 'g random_source = "'g \<Rightarrow> rat \<times> 'g"

definition uniform :: "'g random_source \<Rightarrow> rat \<Rightarrow> rat \<Rightarrow> 'g \<Rightarrow> rat \<times> 'g" where
  "uniform random a b g = (case random g of (u, g') \<Rightarrow> (a + (b - a) * u, g'))"

text \<open>The variables of the loop: the list built so far, the counter, the generator.\<close>

record 'g loop_state =
  pts :: "sample_point list"
  attempts :: int
  rng :: 'g

text \<open>One pass through the body of the \<^verbatim>\<open>while\<close> loop (lines 97 to 108).\<close>

definition loop_body :: "polygon \<Rightarrow> 'g random_source \<Rightarrow> 'g loop_state \<Rightarrow> 'g loop_state" where
  "loop_body malta_boundary random s =
     (case bounds malta_boundary of (minx, miny, maxx, maxy) \<Rightarrow>
        (case uniform random minx maxx (rng s) of (longitude, g1) \<Rightarrow>
           (case uniform random miny maxy g1 of (latitude, g2) \<Rightarrow>
              (if contains malta_boundary (longitude, latitude)
                  \<or> touches malta_boundary (longitude, latitude)
               then \<lparr>pts = pts s @ [(py_round6 latitude, py_round6 longitude)],
                     attempts = attempts s + 1, rng = g2\<rparr>
               else \<lparr>pts = pts s, attempts = attempts s + 1, rng = g2\<rparr>))))"

definition loop_cond :: "int \<Rightarrow> int \<Rightarrow> 'g loop_state \<Rightarrow> bool" where
  "loop_cond num_points max_attempts s =
     (int (length (pts s)) < num_points \<and> attempts s < max_attempts)"

text \<open>
  The \<^verbatim>\<open>while\<close> loop. It is a total function: the distance of the counter from the
  budget shrinks with every pass.
\<close>

function sample_loop ::
  "polygon \<Rightarrow> 'g random_source \<Rightarrow> int \<Rightarrow> int \<Rightarrow> 'g loop_state \<Rightarrow> 'g loop_state" where
  "sample_loop malta_boundary random num_points max_attempts s =
     (if loop_cond num_points max_attempts s
      then sample_loop malta_boundary random num_points max_attempts
             (loop_body malta_boundary random s)
      else s)"
  by pat_completeness auto
termination
  by (relation "measure (\<lambda>(b, r, n, m, s). nat (m - attempts s))")
     (auto simp: loop_cond_def loop_body_def split: prod.splits)

text \<open>What the function prints, as events in the order of printing.\<close>

datatype notice =
  Generating int
| Shortfall_warning nat int int

fun is_warning :: "notice \<Rightarrow> bool" where
  "is_warning (Shortfall_warning k n m) = True"
| "is_warning (Generating n) = False"

record 'g generated =
  returned :: "sample_point list"
  printed :: "notice list"
  final :: "'g loop_state"

text \<open>
  \<^verbatim>\<open>generate_malta_points\<close>, with the boundary that \<^verbatim>\<open>get_malta_boundary\<close> delivered
  and the generator as arguments. The state in which the loop ended is kept beside the
  returned list, so that the attempts and the generator can be spoken of.
\<close>

definition generate_malta_points ::
  "polygon \<Rightarrow> 'g random_source \<Rightarrow> int \<Rightarrow> 'g \<Rightarrow> 'g generated" where
  "generate_malta_points malta_boundary random num_points g =
     (let max_attempts = num_points * 20;
          s = sample_loop malta_boundary random num_points max_attempts
                \<lparr>pts = [], attempts = 0, rng = g\<rparr>
      in \<lparr>returned = pts s,
          printed = Generating num_points #
            (if int (length (pts s)) < num_points
             then [Shortfall_warning (length (pts s)) num_points max_attempts] else []),
          final = s\<rparr>)"

text \<open>
  The loop once more, as a relation between the state before and the state after, one
  rule per way through the \<^verbatim>\<open>while\<close>.
\<close>

inductive loop_run ::
  "polygon \<Rightarrow> 'g random_source \<Rightarrow> int \<Rightarrow> int \<Rightarrow> 'g loop_state \<Rightarrow> 'g loop_state \<Rightarrow> bool"
  for malta_boundary random num_points max_attempts where
  loop_exit: "\<not> loop_cond num_points max_attempts s \<Longrightarrow>
     loop_run malta_boundary random num_points max_attempts s s"
| loop_pass: "loop_cond num_points max_attempts s \<Longrightarrow>
     loop_run malta_boundary random num_points max_attempts (loop_body malta_boundary random s) t \<Longrightarrow>
     loop_run malta_boundary random num_points max_attempts s t"

text \<open>
  The numbers that the next \<open>k\<close> calls of \<^verbatim>\<open>random.random()\<close> return, from a given
  state of the generator on.
\<close>

fun draws :: "'g random_source \<Rightarrow> 'g \<Rightarrow> nat \<Rightarrow> rat list" where
  "draws random g 0 = []"
| "draws random g (Suc k) = (case random g of (u, g') \<Rightarrow> u # draws random g' k)"

text \<open>A generator that deals the numbers of a list in turn, over and over.\<close>

definition cycle_source :: "rat list \<Rightarrow> nat random_source" where
  "cycle_source us k = (us ! (k mod length us), Suc k)"

text \<open>
  The fallback boundary of \<^verbatim>\<open>get_malta_boundary\<close>: the ring \<^verbatim>\<open>malta_coords\<close> of the
  source, pairs (longitude, latitude). The ring is convex and runs clockwise, so a point
  is inside when it lies strictly to the right of every edge and on the border when it
  lies to the right of or on every edge and on one of them; the bounding box is taken over
  the vertices.
\<close>

definition malta_coords :: "(coord \<times> coord) list" where
  "malta_coords =
     [(14.1836, 35.7836), (14.1836, 35.8889), (14.2500, 35.9500), (14.5000, 35.9500),
      (14.5677, 35.8889), (14.5677, 35.8000), (14.4500, 35.7836), (14.3000, 35.7836),
      (14.1836, 35.7836)]"

definition cross :: "coord \<times> coord \<Rightarrow> coord \<times> coord \<Rightarrow> coord \<times> coord \<Rightarrow> rat" where
  "cross a b p = (fst b - fst a) * (snd p - snd a) - (snd b - snd a) * (fst p - fst a)"

fun ring_edges :: "'a list \<Rightarrow> ('a \<times> 'a) list" where
  "ring_edges (a # b # vs) = (a, b) # ring_edges (b # vs)"
| "ring_edges vs = []"

definition clockwise_convex :: "(coord \<times> coord) list \<Rightarrow> polygon" where
  "clockwise_convex ring =
     \<lparr>bounds = (fold min (map fst ring) (fst (hd ring)), fold min (map snd ring) (snd (hd ring)),
                fold max (map fst ring) (fst (hd ring)), fold max (map snd ring) (snd (hd ring))),
      contains = (\<lambda>p. list_all (\<lambda>(a, b). cross a b p < 0) (ring_edges ring)),
      touches = (\<lambda>p. list_all (\<lambda>(a, b). cross a b p \<le> 0) (ring_edges ring)
                      \<and> list_ex (\<lambda>(a, b). cross a b p = 0) (ring_edges ring))\<rparr>"

definition fallback_boundary :: polygon where
  "fallback_boundary = clockwise_convex malta_coords"

text \<open>A geometry without area, which accepts no point.\<close>

definition empty_region :: "coord \<Rightarrow> coord \<Rightarrow> polygon" where
  "empty_region x y = \<lparr>bounds = (x, y, x, y), contains = (\<lambda>p. False), touches = (\<lambda>p. False)\<rparr>"

section \<open>The curl command and the request\<close>

text \<open>\<^verbatim>\<open>xs[:m]\<close>: a negative \<open>m\<close> counts from the end.\<close>

definition py_slice_to :: "'a list \<Rightarrow> int \<Rightarrow> 'a list" where
  "py_slice_to xs m = (if 0 \<le> m then take (nat m) xs else take (nat (int (length xs) + m)) xs)"

text \<open>
  \<^verbatim>\<open>if max_points: points = points[:max_points]\<close>, the first statement of
  \<^verbatim>\<open>generate_curl_command\<close> and of \<^verbatim>\<open>make_driving_api_request\<close>. The condition is
  Python's truth value: \<^verbatim>\<open>None\<close> and \<^verbatim>\<open>0\<close> are false.
\<close>

definition limit_points :: "sample_point list \<Rightarrow> int option \<Rightarrow> sample_point list" where
  "limit_points points max_points =
     (case max_points of
        None \<Rightarrow> points
      | Some m \<Rightarrow> if m \<noteq> 0 then py_slice_to points m else points)"

definition generate_curl_command :: "sample_point list \<Rightarrow> int option \<Rightarrow> string" where
  "generate_curl_command points max_points =
     (let points' = limit_points points max_points;
          api_format = format_points_for_api points'
      in ''curl -X POST '' @ [CHR 0x22] @ ''http://127.0.0.1:5002/table/v1/driving/'' @ [CHR 0x22]
         @ '' '' @ [CHR 0x5C, CHR 0x0A]
         @ ''-H '' @ [CHR 0x22] @ ''Content-Type: application/x-www-form-urlencoded'' @ [CHR 0x22]
         @ '' '' @ [CHR 0x5C, CHR 0x0A]
         @ ''-d '' @ [CHR 0x22] @ api_format @ [CHR 0x22])"

text \<open>A JSON value as Python reads it; an object becomes a dictionary, kept in key order.\<close>

datatype json =
  JNull
| JBool bool
| JNumber rat
| JString string
| JArray "json list"
| JObject "(string \<times> json) list"

type_synonym py_dict = "(string \<times> json) list"

definition has_key :: "py_dict \<Rightarrow> string \<Rightarrow> bool" where
  "has_key d k = (k \<in> set (map fst d))"

text \<open>
  What \<^verbatim>\<open>requests.post\<close> gives back. A response carries its status, its text (the field \<open>response_text\<close>) and
  what \<^verbatim>\<open>response.json()\<close> makes of the text: \<open>None\<close> when the text is not JSON (it
  raises \<^verbatim>\<open>JSONDecodeError\<close>). Otherwise the call raises an exception of the class
  \<^verbatim>\<open>requests.exceptions.RequestException\<close>, with its message.
\<close>

record http_response =
  status_code :: int
  response_text :: string
  json_body :: "json option"

datatype post_outcome =
  Response http_response
| RequestException string

datatype py_exception = TypeError

datatype request_notice =
  Making_request string
| Sending nat
| Data string
| Status int

text \<open>\<^verbatim>\<open>headers\<close>\<close>

definition request_headers :: "(string \<times> string) list" where
  "request_headers = [(''Content-Type'', ''application/x-www-form-urlencoded'')]"

text \<open>
  \<^verbatim>\<open>make_driving_api_request\<close>. The server is the function \<open>post\<close> of the url, the body
  and the headers; \<open>start_time\<close> and \<open>end_time\<close> are the two readings of the clock. The
  result is what the function prints and then either the dictionary it returns or the
  exception that leaves it: storing a key into the value of \<^verbatim>\<open>response.json()\<close> raises
  \<^verbatim>\<open>TypeError\<close> when that value is not a dictionary, and no handler of the function
  catches it.
\<close>

definition make_driving_api_request ::
  "sample_point list \<Rightarrow> int option \<Rightarrow> string
    \<Rightarrow> (string \<Rightarrow> string \<Rightarrow> (string \<times> string) list \<Rightarrow> post_outcome) \<Rightarrow> rat \<Rightarrow> rat
    \<Rightarrow> request_notice list \<times> (py_exception + py_dict)" where
  "make_driving_api_request points max_points api_url post start_time end_time =
     (let points' = limit_points points max_points;
          api_format = format_points_for_api points';
          headers = request_headers;
          out = [Making_request api_url, Sending (length points'),
                 Data (if 100 < length api_format then take 100 api_format @ ''...''
                       else api_format)]
      in case post api_url api_format headers of
           RequestException e \<Rightarrow>
             (out, Inr [(''error'', JString (''Request failed: '' @ e)),
                        (''suggestion'',
                         JString ''Make sure the API server is running on http://127.0.0.1:5002'')])
         | Response response \<Rightarrow>
             (let duration = end_time - start_time;
                  out' = out @ [Status (status_code response)]
              in if status_code response = 200
                 then (case json_body response of
                         None \<Rightarrow>
                           (out', Inr [(''raw_response'', JString (response_text response)),
                                       (''request_duration_seconds'', JNumber duration)])
                       | Some (JObject data) \<Rightarrow>
                           (out', Inr (AList.update ''request_duration_seconds''
                                         (JNumber duration) data))
                       | Some _ \<Rightarrow> (out', Inl TypeError))
                 else (out', Inr [(''error'',
                                   JString (''API request failed with status ''
                                            @ show_int (status_code response))),
                                  (''response_text'', JString (response_text response)),
                                  (''request_duration_seconds'', JNumber duration)])))"

text \<open>
  Three properties of what the server did, for stating what the function makes of it:
  the call failed in the function's eyes (an exception, or a status other than 200); the
  server answered 200 with JSON that is not an object, into which no key can be stored;
  the server answered 200 with a JSON object that has a key \<^verbatim>\<open>error\<close> of its own.
\<close>

fun request_failed :: "post_outcome \<Rightarrow> bool" where
  "request_failed (Response r) = (status_code r \<noteq> 200)"
| "request_failed (RequestException e) = True"

fun unstorable :: "post_outcome \<Rightarrow> bool" where
  "unstorable (Response r) =
     (status_code r = 200 \<and>
      (case json_body r of None \<Rightarrow> False | Some (JObject data) \<Rightarrow> False | Some _ \<Rightarrow> True))"
| "unstorable (RequestException e) = False"

fun server_sent_error_key :: "post_outcome \<Rightarrow> bool" where
  "server_sent_error_key (Response r) =
     (status_code r = 200 \<and>
      (case json_body r of Some (JObject data) \<Rightarrow> has_key data ''error'' | _ \<Rightarrow> False))"
| "server_sent_error_key (RequestException e) = False"

text \<open>
  The condition in the words of the specification: a status outside 200 to 299, or a
  network failure.
\<close>

fun non_2xx_or_network_failure :: "post_outcome \<Rightarrow> bool" where
  "non_2xx_or_network_failure (Response r) = (\<not> (200 \<le> status_code r \<and> status_code r < 300))"
| "non_2xx_or_network_failure (RequestException e) = True"

text \<open>Servers for the examples: one per way a call can go.\<close>

definition server_down :: "string \<Rightarrow> string \<Rightarrow> (string \<times> string) list \<Rightarrow> post_outcome" where
  "server_down u d h = RequestException ''Connection refused''"

definition server_created :: "string \<Rightarrow> string \<Rightarrow> (string \<times> string) list \<Rightarrow> post_outcome" where
  "server_created u d h = Response \<lparr>status_code = 201, response_text = ''{}'', json_body = Some (JObject [])\<rparr>"

definition server_array :: "string \<Rightarrow> string \<Rightarrow> (string \<times> string) list \<Rightarrow> post_outcome" where
  "server_array u d h = Response \<lparr>status_code = 200, response_text = ''[]'', json_body = Some (JArray [])\<rparr>"

definition server_ok :: "string \<Rightarrow> string \<Rightarrow> (string \<times> string) list \<Rightarrow> post_outcome" where
  "server_ok u d h =
     Response \<lparr>status_code = 200, response_text = ''{}'', json_body = Some (JObject [])\<rparr>"

definition server_plain :: "string \<Rightarrow> string \<Rightarrow> (string \<times> string) list \<Rightarrow> post_outcome" where
  "server_plain u d h = Response \<lparr>status_code = 200, response_text = ''hello'', json_body = None\<rparr>"

definition server_missing :: "string \<Rightarrow> string \<Rightarrow> (string \<times> string) list \<Rightarrow> post_outcome" where
  "server_missing u d h = Response \<lparr>status_code = 404, response_text = ''Not Found'', json_body = None\<rparr>"

section \<open>Properties of the sampling loop\<close>

declare sample_loop.simps [simp del]

lemma attempts_loop_body: "attempts (loop_body b r s) = attempts s + 1"
  by (simp add: loop_body_def split: prod.splits)


lemma sample_loop_exit: "\<not> loop_cond n m (sample_loop b r n m s)"
proof (induction b r n m s rule: sample_loop.induct)
  case (1 b r n m s)
  then show ?case by (subst sample_loop.simps) simp
qed






lemma loop_run_sample_loop: "loop_run b r n m s (sample_loop b r n m s)"
proof (induction b r n m s rule: sample_loop.induct)
  case (1 b r n m s)
  show ?case
  proof (cases "loop_cond n m s")
    case True
    with "1.IH" show ?thesis
      by (subst sample_loop.simps) (simp add: loop_pass)
  next
    case False
    then show ?thesis by (subst sample_loop.simps) (simp add: loop_exit)
  qed
qed

lemma loop_run_functional:
  "loop_run b r n m s t \<Longrightarrow> loop_run b r n m s t' \<Longrightarrow> t = t'"
proof (induction arbitrary: t' rule: loop_run.induct)
  case (loop_exit s)
  from loop_exit.prems loop_exit.hyps show ?case
    by (cases rule: loop_run.cases) auto
next
  case (loop_pass s t)
  from loop_pass.prems loop_pass.hyps(1) have "loop_run b r n m (loop_body b r s) t'"
    by (cases rule: loop_run.cases) auto
  then show ?case by (rule loop_pass.IH)
qed

lemma eval_rejected:
  "final (generate_malta_points (empty_region 0 0) (cycle_source [1 / 2]) 1 0)
     = \<lparr>pts = [], attempts = 20, rng = 40\<rparr>"
  by (simp add: generate_malta_points_def sample_loop.simps loop_cond_def loop_body_def
      empty_region_def uniform_def cycle_source_def)


text \<open>
  C6. A requested count of 0: the loop is left before its first pass. The function returns
  the empty list, prints its opening line and nothing else, and the counter and the
  generator are as they were: no attempt was made and no random number was drawn.
\<close>

theorem generate_zero_points:
  "generate_malta_points b r 0 g =
     \<lparr>returned = [], printed = [Generating 0], final = \<lparr>pts = [], attempts = 0, rng = g\<rparr>\<rparr>"
  by (simp add: generate_malta_points_def sample_loop.simps loop_cond_def)





text \<open>
  C7. \<^verbatim>\<open>generate_malta_points\<close> prints the shortfall warning exactly when the loop has
  ended with fewer points than requested and with the attempt budget used up. What it
  returns is in every case the list the loop has built, a partial list included; the
  warning names the number of points, the request and the budget.
\<close>

theorem warning_iff_shortfall:
  "list_ex is_warning (printed (generate_malta_points b r n g))
     = (int (length (pts (final (generate_malta_points b r n g)))) < n
        \<and> n * 20 \<le> attempts (final (generate_malta_points b r n g)))
   \<and> returned (generate_malta_points b r n g) = pts (final (generate_malta_points b r n g))
   \<and> printed (generate_malta_points b r n g) =
       Generating n #
         (if int (length (returned (generate_malta_points b r n g))) < n
          then [Shortfall_warning (length (returned (generate_malta_points b r n g))) n (n * 20)]
          else [])
   \<and> loop_run b r n (n * 20) \<lparr>pts = [], attempts = 0, rng = g\<rparr>
        (final (generate_malta_points b r n g))"
proof -
  let ?t = "sample_loop b r n (n * 20) \<lparr>pts = [], attempts = 0, rng = g\<rparr>"
  have "\<not> loop_cond n (n * 20) ?t" by (rule sample_loop_exit)
  then have "int (length (pts ?t)) < n \<Longrightarrow> n * 20 \<le> attempts ?t"
    by (simp add: loop_cond_def)
  then show ?thesis
    by (auto simp: generate_malta_points_def Let_def loop_run_sample_loop)
qed


theorem warning_iff_shortfall_witness:
  "list_ex is_warning (printed (generate_malta_points (empty_region 0 0) (cycle_source [1 / 2]) 1 0))
   \<and> returned (generate_malta_points (empty_region 0 0) (cycle_source [1 / 2]) 1 0) = []"
  using warning_iff_shortfall [of "empty_region 0 0" "cycle_source [1 / 2]" 1 0]
  by (simp add: eval_rejected)



lemma loop_body_same_draws:
  assumes "draws r (rng s) (Suc (Suc k)) = draws r' (rng s') (Suc (Suc k))"
    and "pts s = pts s'" and "attempts s = attempts s'"
  shows "pts (loop_body b r s) = pts (loop_body b r' s')
     \<and> attempts (loop_body b r s) = attempts (loop_body b r' s')
     \<and> draws r (rng (loop_body b r s)) k = draws r' (rng (loop_body b r' s')) k"
  using assms by (auto simp: loop_body_def uniform_def split: prod.splits)

lemma sample_loop_same_draws:
  "pts s = pts s' \<Longrightarrow> attempts s = attempts s' \<Longrightarrow>
   draws r (rng s) (2 * nat (m - attempts s)) = draws r' (rng s') (2 * nat (m - attempts s)) \<Longrightarrow>
   pts (sample_loop b r n m s) = pts (sample_loop b r' n m s')"
proof (induction b r n m s arbitrary: s' rule: sample_loop.induct)
  case (1 b r n m s)
  have cond: "loop_cond n m s' = loop_cond n m s"
    using "1.prems" by (simp add: loop_cond_def)
  show ?case
  proof (cases "loop_cond n m s")
    case True
    then have "attempts s < m" by (simp add: loop_cond_def)
    then have k: "2 * nat (m - attempts s) = Suc (Suc (2 * nat (m - (attempts s + 1))))"
      by (simp add: nat_diff_distrib)
    from "1.prems"(3) have "draws r (rng s) (Suc (Suc (2 * nat (m - (attempts s + 1)))))
        = draws r' (rng s') (Suc (Suc (2 * nat (m - (attempts s + 1)))))"
      unfolding k .
    from loop_body_same_draws [OF this "1.prems"(1,2), of b]
    have "pts (sample_loop b r n m (loop_body b r s))
        = pts (sample_loop b r' n m (loop_body b r' s'))"
      using "1.prems"(2) by (intro "1.IH" [OF True]) (simp_all add: attempts_loop_body)
    with True cond show ?thesis
      by (subst sample_loop.simps, subst (2) sample_loop.simps) simp
  next
    case False
    with cond "1.prems" show ?thesis
      by (subst sample_loop.simps, subst (2) sample_loop.simps) simp
  qed
qed

lemma draws_cycle_shift:
  "us \<noteq> [] \<Longrightarrow> draws (cycle_source us) (k + length us) n = draws (cycle_source us) k n"
proof (induction n arbitrary: k)
  case 0
  show ?case by simp
next
  case (Suc n)
  from Suc.IH [OF Suc.prems, of "Suc k"] show ?case
    by (simp add: cycle_source_def)
qed

lemma eval_fallback_sample:
  "returned (generate_malta_points fallback_boundary (cycle_source [8 / 177, 43 / 59]) 1 0)
     = [(35.904875, 14.20096)]"
  by code_simp

text \<open>
  C8. The list that \<^verbatim>\<open>generate_malta_points\<close> returns for a boundary and a requested count is
  determined by the numbers the generator deals in the \<open>2 * (num_points * 20)\<close> draws the loop can
  make: two runs to which the generator deals the same numbers return the same list and print
  the same lines. Two runs that start from the same seed are dealt the same numbers. (The
  script itself never seeds the module's generator; its state at the start of the loop is the
  argument \<open>g\<close>.)
\<close>

theorem same_seed_same_points:
  assumes "draws random g (2 * nat (num_points * 20)) = draws random' g' (2 * nat (num_points * 20))"
  shows "returned (generate_malta_points b random num_points g)
           = returned (generate_malta_points b random' num_points g')
       \<and> printed (generate_malta_points b random num_points g)
           = printed (generate_malta_points b random' num_points g')"
proof -
  have "pts (sample_loop b random num_points (num_points * 20) \<lparr>pts = [], attempts = 0, rng = g\<rparr>)
      = pts (sample_loop b random' num_points (num_points * 20) \<lparr>pts = [], attempts = 0, rng = g'\<rparr>)"
    using assms by (intro sample_loop_same_draws) simp_all
  then show ?thesis by (simp add: generate_malta_points_def Let_def)
qed

theorem same_seed_same_points_witness:
  "draws (cycle_source [8 / 177, 43 / 59]) 0 (2 * nat (1 * 20))
     = draws (cycle_source [8 / 177, 43 / 59]) 2 (2 * nat (1 * 20))
   \<and> returned (generate_malta_points fallback_boundary (cycle_source [8 / 177, 43 / 59]) 1 2)
     = [(35.904875, 14.20096)]"
proof -
  have same: "draws (cycle_source [8 / 177, 43 / 59]) 0 (2 * nat (1 * 20))
      = draws (cycle_source [8 / 177, 43 / 59]) 2 (2 * nat (1 * 20))"
  proof -
    have len: "0 + length [8 / 177, 43 / 59 :: rat] = 2" by simp
    have "draws (cycle_source [8 / 177, 43 / 59]) (0 + length [8 / 177, 43 / 59 :: rat])
        (2 * nat (1 * 20)) = draws (cycle_source [8 / 177, 43 / 59]) 0 (2 * nat (1 * 20))"
      by (rule draws_cycle_shift) simp
    then show ?thesis unfolding len by (rule sym)
  qed
  from same_seed_same_points [OF same, of fallback_boundary] eval_fallback_sample same
  show ?thesis by simp
qed

text \<open>
  What the loop does guarantee: every point of the list is the rounding of a sampled point
  that passed the test.
\<close>

lemma loop_body_rounded_from_accepted:
  assumes "\<forall>p \<in> set (pts s). \<exists>lon lat. p = (py_round6 lat, py_round6 lon)
             \<and> (contains b (lon, lat) \<or> touches b (lon, lat))"
  shows "\<forall>p \<in> set (pts (loop_body b r s)). \<exists>lon lat. p = (py_round6 lat, py_round6 lon)
             \<and> (contains b (lon, lat) \<or> touches b (lon, lat))"
  using assms by (auto simp: loop_body_def split: prod.splits)

lemma sample_loop_rounded_from_accepted:
  "\<forall>p \<in> set (pts s). \<exists>lon lat. p = (py_round6 lat, py_round6 lon)
       \<and> (contains b (lon, lat) \<or> touches b (lon, lat)) \<Longrightarrow>
   \<forall>p \<in> set (pts (sample_loop b r n m s)). \<exists>lon lat. p = (py_round6 lat, py_round6 lon)
       \<and> (contains b (lon, lat) \<or> touches b (lon, lat))"
proof (induction b r n m s rule: sample_loop.induct)
  case (1 b r n m s)
  show ?case
  proof (cases "loop_cond n m s")
    case True
    from "1.prems" have "\<forall>p \<in> set (pts (loop_body b r s)). \<exists>lon lat.
        p = (py_round6 lat, py_round6 lon) \<and> (contains b (lon, lat) \<or> touches b (lon, lat))"
      by (rule loop_body_rounded_from_accepted)
    with True "1.IH" show ?thesis by (subst sample_loop.simps) simp
  next
    case False
    with "1.prems" show ?thesis by (subst sample_loop.simps) simp
  qed
qed

lemma returned_rounded_from_accepted:
  "p \<in> set (returned (generate_malta_points b r n g)) \<Longrightarrow>
   \<exists>lon lat. p = (py_round6 lat, py_round6 lon) \<and> (contains b (lon, lat) \<or> touches b (lon, lat))"
  using sample_loop_rounded_from_accepted [where s = "\<lparr>pts = [], attempts = 0, rng = g\<rparr>"
      and b = b and r = r and n = n and m = "n * 20"]
  by (simp add: generate_malta_points_def Let_def)

text \<open>
  C1. On the fallback boundary, with a request for one point and a generator whose first
  two numbers are \<open>8 / 177\<close> and \<open>43 / 59\<close>, the sampled point
  (14.2009604..., 35.9048745...) lies inside, just south-east of the edge from
  (14.1836, 35.8889) to (14.25, 35.95). The function returns its rounding, latitude
  35.904875 and longitude 14.20096, and this point lies outside: the boundary neither
  contains nor touches it.
\<close>

theorem rounded_point_outside:
  "returned (generate_malta_points fallback_boundary (cycle_source [8 / 177, 43 / 59]) 1 0)
     = [(35.904875, 14.20096)]
   \<and> \<not> contains fallback_boundary (14.20096, 35.904875)
   \<and> \<not> touches fallback_boundary (14.20096, 35.904875)"
  by code_simp

section \<open>Properties of the formatting and of the request\<close>

lemma foldl_snoc_map: "foldl (\<lambda>acc p. acc @ [f p]) a ps = a @ map f ps"
  by (induction ps arbitrary: a) simp_all

lemma format_points_for_api_map:
  "format_points_for_api ps = join '';'' (map format_point ps)"
  by (simp add: format_points_for_api_def foldl_snoc_map)

lemma join_Cons_nonempty: "x \<noteq> [] \<Longrightarrow> join sep (x # xs) \<noteq> []"
  by (cases xs) simp_all

lemma format_point_nonempty: "format_point p \<noteq> []"
  by (simp add: format_point_def split: prod.splits)

lemma format_points_nonempty: "ps \<noteq> [] \<Longrightarrow> format_points_for_api ps \<noteq> []"
  by (cases ps) (simp_all add: format_points_for_api_map join_Cons_nonempty format_point_nonempty)

lemma limit_points_cases:
  "limit_points ps None = ps" "limit_points ps (Some 0) = ps"
  "0 < m \<Longrightarrow> limit_points ps (Some m) = take (nat m) ps"
  by (simp_all add: limit_points_def py_slice_to_def)

declare show_nat.simps [simp del]

lemma digit_cases:
  "d < 10 \<Longrightarrow> d = 0 \<or> d = 1 \<or> d = 2 \<or> d = 3 \<or> d = 4 \<or> d = 5 \<or> d = 6 \<or> d = 7 \<or> d = 8 \<or> d = (9::nat)"
  by arith

lemma digit_val_digit_char: "digit_val (digit_char d) = d mod 10"
proof -
  have "d mod 10 < 10" by simp
  from digit_cases [OF this] show ?thesis
    by (auto simp: digit_val_def digit_char_def)
qed

lemma is_digit_digit_char: "is_digit (digit_char d)"
proof -
  have "d mod 10 < 10" by simp
  from digit_cases [OF this] show ?thesis
    by (auto simp: is_digit_def digit_char_def)
qed

lemma is_digit_not_mark:
  "is_digit c \<Longrightarrow> c \<noteq> CHR ''.'' \<and> c \<noteq> CHR ''-'' \<and> c \<noteq> CHR '','' \<and> c \<noteq> CHR '';''"
  by (auto simp: is_digit_def)

lemma nat_of_digits_snoc: "nat_of_digits (s @ [c]) = 10 * nat_of_digits s + digit_val c"
  by (simp add: nat_of_digits_def)

lemma show_nat_digits: "list_all is_digit (show_nat n)"
proof (induction n rule: show_nat.induct)
  case (1 n)
  then show ?case
    by (subst show_nat.simps) (simp add: is_digit_digit_char)
qed

lemma show_nat_nonempty: "show_nat n \<noteq> []"
  by (subst show_nat.simps) simp

lemma nat_of_digits_show_nat: "nat_of_digits (show_nat n) = n"
proof (induction n rule: show_nat.induct)
  case (1 n)
  show ?case
  proof (cases "n < 10")
    case True
    then show ?thesis
      by (subst show_nat.simps) (simp add: nat_of_digits_def digit_val_digit_char)
  next
    case False
    with "1.IH" show ?thesis
      by (subst show_nat.simps) (simp add: nat_of_digits_snoc digit_val_digit_char)
  qed
qed

lemma fixed_digits_digits: "list_all is_digit (fixed_digits w k)"
  by (induction w arbitrary: k) (simp_all add: is_digit_digit_char)

lemma length_fixed_digits: "length (fixed_digits w k) = w"
  by (induction w arbitrary: k) simp_all

lemma nat_of_digits_fixed_digits: "nat_of_digits (fixed_digits w k) = k mod 10 ^ w"
proof (induction w arbitrary: k)
  case 0
  show ?case by (simp add: nat_of_digits_def)
next
  case (Suc w)
  have "k mod (10 * 10 ^ w) = 10 * (k div 10 mod 10 ^ w) + k mod 10"
    by (simp add: mod_mult2_eq)
  with Suc show ?case
    by (simp add: nat_of_digits_snoc digit_val_digit_char)
qed

lemma round_half_even_uminus: "round_half_even (- r) = - round_half_even r"
proof (cases "r \<in> \<int>")
  case True
  then obtain k where "r = of_int k" by (auto elim: Ints_cases)
  then show ?thesis by (simp add: round_half_even_def flip: of_int_minus)
next
  case False
  then have "r \<noteq> of_int \<lfloor>r\<rfloor>" by (metis Ints_of_int)
  then have fl: "\<lfloor>- r\<rfloor> = - \<lfloor>r\<rfloor> - 1"
    by (simp add: floor_minus ceiling_altdef)
  have "even (- \<lfloor>r\<rfloor> - 1) = odd \<lfloor>r\<rfloor>" by simp
  with fl show ?thesis
    by (auto simp: round_half_even_def Let_def)
qed

lemma round_half_even_nonneg: "0 \<le> r \<Longrightarrow> 0 \<le> round_half_even r"
  by (auto simp: round_half_even_def Let_def)

lemma py_round6_magnitude:
  "py_round6 x = (if x < 0 then - 1 else 1) * of_nat (nat (round_half_even (\<bar>x\<bar> * 1000000))) / 1000000"
proof (cases "x < 0")
  case True
  then have "x * 1000000 = - (\<bar>x\<bar> * 1000000)" by simp
  then have "round_half_even (x * 1000000) = - round_half_even (\<bar>x\<bar> * 1000000)"
    by (simp only: round_half_even_uminus)
  moreover have "0 \<le> round_half_even (\<bar>x\<bar> * 1000000)"
    by (rule round_half_even_nonneg) simp
  ultimately show ?thesis using True by (simp add: py_round6_def)
next
  case False
  then have "0 \<le> round_half_even (x * 1000000)"
    by (intro round_half_even_nonneg) simp
  with False show ?thesis by (simp add: py_round6_def)
qed

lemma takeWhile_digits_point:
  "list_all is_digit ip \<Longrightarrow> takeWhile (\<lambda>c. c \<noteq> CHR ''.'') (ip @ CHR ''.'' # fp) = ip"
  by (induction ip) (auto dest: is_digit_not_mark)

lemma dropWhile_digits_point:
  "list_all is_digit ip \<Longrightarrow> dropWhile (\<lambda>c. c \<noteq> CHR ''.'') (ip @ CHR ''.'' # fp) = CHR ''.'' # fp"
  by (induction ip) (auto dest: is_digit_not_mark)

lemma parse_unsigned_fixed:
  "parse_unsigned (show_nat a @ CHR ''.'' # frac6 b)
     = Some (of_nat a + of_nat (b mod 1000000) / 1000000)"
proof -
  have "frac6 b \<noteq> []" using length_fixed_digits [of 6 b] by (auto simp: frac6_def)
  then show ?thesis
    by (simp add: parse_unsigned_def takeWhile_digits_point dropWhile_digits_point
        show_nat_digits show_nat_nonempty nat_of_digits_show_nat frac6_def
        fixed_digits_digits length_fixed_digits nat_of_digits_fixed_digits)
qed

lemma split_millionths:
  "(of_nat (n div 1000000) :: rat) + of_nat (n mod 1000000) / 1000000 = of_nat n / 1000000"
proof -
  have "(of_nat n :: rat) = of_nat (n div 1000000 * 1000000 + n mod 1000000)" by simp
  also have "\<dots> = of_nat (n div 1000000) * 1000000 + of_nat (n mod 1000000)"
    by (simp only: of_nat_add of_nat_mult of_nat_numeral)
  finally show ?thesis by (simp add: field_simps)
qed

lemma fmt6_shape:
  "fmt6 x = (if x < 0 then [CHR ''-''] else [])
      @ show_nat (nat (round_half_even (\<bar>x\<bar> * 1000000)) div 1000000) @ CHR ''.''
      # frac6 (nat (round_half_even (\<bar>x\<bar> * 1000000)) mod 1000000)"
  by (simp add: fmt6_def Let_def)

lemma hd_show_nat_not_minus: "show_nat n = c # r \<Longrightarrow> c \<noteq> CHR ''-''"
  using show_nat_digits [of n] by (auto dest: is_digit_not_mark)

lemma parse_fixed_unsigned: "parse_fixed (show_nat a @ t) = parse_unsigned (show_nat a @ t)"
proof -
  obtain c r where cr: "show_nat a = c # r"
    using show_nat_nonempty [of a] by (cases "show_nat a") auto
  then have "c \<noteq> CHR ''-''" by (rule hd_show_nat_not_minus)
  with cr show ?thesis by (simp add: parse_fixed_def)
qed

lemma parse_fixed_fmt6: "parse_fixed (fmt6 x) = Some (py_round6 x)"
proof (cases "x < 0")
  case True
  then show ?thesis
    by (simp add: fmt6_shape parse_fixed_def parse_unsigned_fixed split_millionths
        py_round6_magnitude)
next
  case False
  then show ?thesis
    by (simp add: fmt6_shape parse_fixed_unsigned parse_unsigned_fixed split_millionths
        py_round6_magnitude)
qed

lemma is_fixed6_unsigned:
  "is_fixed6 (show_nat a @ CHR ''.'' # frac6 b)"
proof -
  obtain c r where cr: "show_nat a = c # r"
    using show_nat_nonempty [of a] by (cases "show_nat a") auto
  then have nm: "c \<noteq> CHR ''-''" by (rule hd_show_nat_not_minus)
  have "is_fixed6 ((c # r) @ CHR ''.'' # frac6 b)
      = (let ip = takeWhile (\<lambda>c. c \<noteq> CHR ''.'') (show_nat a @ CHR ''.'' # frac6 b);
             fp = drop 1 (dropWhile (\<lambda>c. c \<noteq> CHR ''.'') (show_nat a @ CHR ''.'' # frac6 b))
         in ip \<noteq> [] \<and> list_all is_digit ip \<and> length fp = 6 \<and> list_all is_digit fp)"
    using nm by (simp add: is_fixed6_def cr)
  then show ?thesis
    by (simp add: cr [symmetric] takeWhile_digits_point dropWhile_digits_point show_nat_digits
        show_nat_nonempty frac6_def length_fixed_digits fixed_digits_digits)
qed

lemma is_fixed6_signed:
  "is_fixed6 (CHR ''-'' # show_nat a @ CHR ''.'' # frac6 b)"
  by (simp add: is_fixed6_def takeWhile_digits_point dropWhile_digits_point show_nat_digits
      show_nat_nonempty frac6_def length_fixed_digits fixed_digits_digits)

lemma is_fixed6_fmt6: "is_fixed6 (fmt6 x)"
  by (simp add: fmt6_shape is_fixed6_unsigned is_fixed6_signed)

lemma fmt6_chars: "set (fmt6 x) \<subseteq> insert CHR ''-'' (insert CHR ''.'' (Collect is_digit))"
  using show_nat_digits [of "nat (round_half_even (\<bar>x\<bar> * 1000000)) div 1000000"]
    fixed_digits_digits [of 6 "nat (round_half_even (\<bar>x\<bar> * 1000000)) mod 1000000"]
  by (auto simp: fmt6_shape frac6_def list_all_iff)

lemma fmt6_no_separator: "CHR '','' \<notin> set (fmt6 x)" "CHR '';'' \<notin> set (fmt6 x)"
  using fmt6_chars [of x] by (auto simp: is_digit_def)

lemma fixed_digits_numeral:
  "fixed_digits (numeral w) k = fixed_digits (pred_numeral w) (k div 10) @ [digit_char (k mod 10)]"
proof -
  have e: "numeral w = Suc (pred_numeral w)" by (rule numeral_eq_Suc)
  show ?thesis by (simp only: e fixed_digits.simps)
qed

lemmas fmt6_eval =
  fmt6_def round_half_even_def Let_def show_nat.simps frac6_def fixed_digits_numeral digit_char_def

lemma split_on_nonempty: "split_on c s \<noteq> []"
  by (induction s) (auto split: list.splits)

lemma split_on_no_separator: "c \<notin> set s \<Longrightarrow> split_on c s = [s]"
  by (induction s) auto

lemma split_on_append: "c \<notin> set a \<Longrightarrow> split_on c (a @ c # b) = a # split_on c b"
  by (induction a) auto

lemma format_point_no_semicolon: "CHR '';'' \<notin> set (format_point p)"
  by (simp add: format_point_def fmt6_no_separator split: prod.splits)

lemma split_format_point:
  "split_on CHR '','' (format_point (lat, lon)) = [fmt6 lon, fmt6 lat]"
  by (simp add: format_point_def split_on_append split_on_no_separator fmt6_no_separator)

lemma split_join_points:
  "ps \<noteq> [] \<Longrightarrow> split_on CHR '';'' (join '';'' (map format_point ps)) = map format_point ps"
proof (induction ps)
  case Nil
  then show ?case by simp
next
  case (Cons p ps)
  show ?case
  proof (cases ps)
    case Nil
    then show ?thesis by (simp add: split_on_no_separator format_point_no_semicolon)
  next
    case (Cons q qs)
    with Cons.IH show ?thesis
      by (simp add: split_on_append format_point_no_semicolon)
  qed
qed

lemma parse_point_format_point:
  "parse_point (format_point (lat, lon)) = Some (py_round6 lat, py_round6 lon)"
  by (simp add: parse_point_def split_format_point parse_fixed_fmt6)

lemma parse_all_format_points:
  "parse_all (map format_point ps) = Some (map (\<lambda>(lat, lon). (py_round6 lat, py_round6 lon)) ps)"
  by (induction ps) (auto simp: parse_point_format_point)

lemma parse_api_points_format:
  "parse_api_points (format_points_for_api ps)
     = Some (map (\<lambda>(lat, lon). (py_round6 lat, py_round6 lon)) ps)"
proof (cases "ps = []")
  case True
  then show ?thesis by (simp add: parse_api_points_def format_points_for_api_map)
next
  case False
  then have "format_points_for_api ps \<noteq> []" by (rule format_points_nonempty)
  with False show ?thesis
    by (simp add: parse_api_points_def)
       (simp add: format_points_for_api_map split_join_points parse_all_format_points)
qed

text \<open>
  C5. \<^verbatim>\<open>format_points_for_api\<close> gives the renderings of the points in the order of the
  list, joined by \<^verbatim>\<open>;\<close>: cutting the result of a non-empty list at \<^verbatim>\<open>;\<close> and each
  piece at \<^verbatim>\<open>,\<close> gives back, point by point, the rendering of the longitude followed by
  that of the latitude. The rendering of a number has the fixed shape with exactly six
  digits after the point, and it reads as the number rounded to six decimals.
\<close>

theorem format_points_for_api_layout:
  "format_points_for_api ps = join '';'' (map (\<lambda>(lat, lon). fmt6 lon @ '','' @ fmt6 lat) ps)
   \<and> (if ps = [] then format_points_for_api ps = []
       else map (split_on CHR '','') (split_on CHR '';'' (format_points_for_api ps))
            = map (\<lambda>(lat, lon). [fmt6 lon, fmt6 lat]) ps)
   \<and> is_fixed6 (fmt6 x) \<and> parse_fixed (fmt6 x) = Some (py_round6 x)"
proof -
  have fp: "format_point = (\<lambda>(lat, lon). fmt6 lon @ '','' @ fmt6 lat)"
    by (auto simp: format_point_def)
  have a: "format_points_for_api ps = join '';'' (map (\<lambda>(lat, lon). fmt6 lon @ '','' @ fmt6 lat) ps)"
    by (simp add: format_points_for_api_map fp)
  have b: "map (split_on CHR '','') (split_on CHR '';'' (format_points_for_api ps))
            = map (\<lambda>(lat, lon). [fmt6 lon, fmt6 lat]) ps" if "ps \<noteq> []"
    using that by (auto simp: format_points_for_api_map split_join_points split_format_point)
  have c: "format_points_for_api [] = []"
    by (simp add: format_points_for_api_def)
  from a b c show ?thesis
    by (simp add: is_fixed6_fmt6 parse_fixed_fmt6)
qed

theorem format_points_for_api_layout_witness:
  "format_points_for_api [(35.904875, 14.20096), (- 1.5, 2)]
     = ''14.200960,35.904875;2.000000,-1.500000''
   \<and> map (split_on CHR '','')
       (split_on CHR '';'' (format_points_for_api [(35.904875, 14.20096), (- 1.5, 2)]))
     = [[''14.200960'', ''35.904875''], [''2.000000'', ''-1.500000'']]
   \<and> is_fixed6 ''-1.500000''"
proof -
  have e: "fmt6 14.20096 = ''14.200960''" "fmt6 35.904875 = ''35.904875''"
    "fmt6 2 = ''2.000000''" "fmt6 (- 1.5) = ''-1.500000''"
    by (simp_all add: fmt6_eval)
  from format_points_for_api_layout [of "[(35.904875, 14.20096), (- 1.5, 2)]" "- 1.5"]
  show ?thesis by (simp add: e [simplified])
qed

text \<open>
  C4. A list of sample points whose coordinates are already rounded to six decimals is
  read back from its API string exactly: cutting the string at \<^verbatim>\<open>;\<close> and \<^verbatim>\<open>,\<close>, reading
  the numbers and putting the latitude first again gives the list itself.
\<close>

theorem format_parse_roundtrip:
  assumes "list_all (\<lambda>(lat, lon). py_round6 lat = lat \<and> py_round6 lon = lon) ps"
  shows "parse_api_points (format_points_for_api ps) = Some ps"
proof -
  from assms have "map (\<lambda>(lat, lon). (py_round6 lat, py_round6 lon)) ps = ps"
    by (induction ps) auto
  then show ?thesis by (simp add: parse_api_points_format)
qed

theorem format_parse_roundtrip_witness:
  "list_all (\<lambda>(lat, lon). py_round6 lat = lat \<and> py_round6 lon = lon)
     [(35.904875, 14.20096), (- 1.5, 2)]
   \<and> parse_api_points (format_points_for_api [(35.904875, 14.20096), (- 1.5, 2)])
     = Some [(35.904875, 14.20096), (- 1.5, 2)]"
proof -
  have rounded: "list_all (\<lambda>(lat, lon). py_round6 lat = lat \<and> py_round6 lon = lon)
      [(35.904875, 14.20096), (- 1.5, 2)]"
    by (simp add: py_round6_def round_half_even_def Let_def)
  from rounded format_parse_roundtrip [OF rounded] show ?thesis by (rule conjI)
qed

text \<open>
  C9. For a non-empty list, \<open>max_points = 0\<close> leaves the list as it is, in
  \<^verbatim>\<open>generate_curl_command\<close> and in \<^verbatim>\<open>make_driving_api_request\<close>: the result is the one
  without a limit, it is not the result for the empty list, and the request announces all
  the points. A positive \<open>max_points = m\<close> gives the result for the first \<open>m\<close> points.
\<close>

theorem max_points_zero_keeps_all:
  assumes "points \<noteq> []" and "0 < m"
  shows "generate_curl_command points (Some 0) = generate_curl_command points None
     \<and> generate_curl_command points (Some 0) \<noteq> generate_curl_command [] None
     \<and> make_driving_api_request points (Some 0) url post t0 t1
         = make_driving_api_request points None url post t0 t1
     \<and> fst (make_driving_api_request points (Some 0) url post t0 t1) ! 1 = Sending (length points)
     \<and> generate_curl_command points (Some m) = generate_curl_command (take (nat m) points) None
     \<and> make_driving_api_request points (Some m) url post t0 t1
         = make_driving_api_request (take (nat m) points) None url post t0 t1
     \<and> fst (make_driving_api_request points (Some m) url post t0 t1) ! 1
         = Sending (min (nat m) (length points))"
proof -
  have a: "generate_curl_command points (Some 0) = generate_curl_command points None"
    by (simp add: generate_curl_command_def limit_points_cases)
  have b: "generate_curl_command points (Some 0) \<noteq> generate_curl_command [] None"
    using format_points_nonempty [OF assms(1)]
    by (simp add: generate_curl_command_def limit_points_cases format_points_for_api_def)
  have c: "make_driving_api_request points (Some 0) url post t0 t1
         = make_driving_api_request points None url post t0 t1"
    by (simp add: make_driving_api_request_def limit_points_cases)
  have d: "fst (make_driving_api_request points (Some 0) url post t0 t1) ! 1 = Sending (length points)"
    by (simp add: make_driving_api_request_def limit_points_cases Let_def
        split: post_outcome.splits option.splits json.splits)
  have e: "generate_curl_command points (Some m) = generate_curl_command (take (nat m) points) None"
    using assms(2) by (simp add: generate_curl_command_def limit_points_cases)
  have f: "make_driving_api_request points (Some m) url post t0 t1
         = make_driving_api_request (take (nat m) points) None url post t0 t1"
    using assms(2) by (simp add: make_driving_api_request_def limit_points_cases)
  have g: "fst (make_driving_api_request points (Some m) url post t0 t1) ! 1
         = Sending (min (nat m) (length points))"
    using assms(2) by (simp add: make_driving_api_request_def limit_points_cases Let_def min.commute
        split: post_outcome.splits option.splits json.splits)
  from a b c d e f g show ?thesis by blast
qed

theorem max_points_zero_keeps_all_witness:
  "[(1, 2), (3, 4 :: rat)] \<noteq> [] \<and> (0 :: int) < 1
   \<and> generate_curl_command [(1, 2), (3, 4)] (Some 0) \<noteq> generate_curl_command [] None
   \<and> generate_curl_command [(1, 2), (3, 4)] (Some 1) = generate_curl_command [(1, 2)] None"
proof -
  have ne: "[(1, 2), (3, 4 :: rat)] \<noteq> []" and pos: "(0 :: int) < 1"
    by simp_all
  from max_points_zero_keeps_all [OF ne pos, of "''u''" server_down 0 0]
  have "generate_curl_command [(1, 2), (3, 4)] (Some 0) \<noteq> generate_curl_command [] None"
    and "generate_curl_command [(1, 2), (3, 4)] (Some 1)
         = generate_curl_command (take (nat 1) [(1, 2), (3, 4)]) None"
    by blast+
  with ne pos show ?thesis by simp
qed

text \<open>
  The key \<^verbatim>\<open>request_duration_seconds\<close> in what the function returns. When
  \<^verbatim>\<open>requests.post\<close> raises, the dictionary has the keys \<^verbatim>\<open>error\<close> and
  \<^verbatim>\<open>suggestion\<close> and not this one. When it answers, every dictionary the function returns
  has it, and the function returns none exactly when the answer is a status 200 with JSON
  that is not an object.
\<close>

lemma duration_key_when_returned:
  assumes "post url (format_points_for_api (limit_points points max_points)) request_headers = out"
  shows "case out of
           RequestException e \<Rightarrow>
             (case snd (make_driving_api_request points max_points url post t0 t1) of
                Inl x \<Rightarrow> False
              | Inr d \<Rightarrow> map fst d = [''error'', ''suggestion'']
                         \<and> \<not> has_key d ''request_duration_seconds'')
         | Response r \<Rightarrow>
             (case snd (make_driving_api_request points max_points url post t0 t1) of
                Inl x \<Rightarrow> unstorable out
              | Inr d \<Rightarrow> \<not> unstorable out \<and> has_key d ''request_duration_seconds'')"
  using assms
  by (auto simp: make_driving_api_request_def Let_def has_key_def
      AList.dom_update split: post_outcome.splits option.splits json.splits)

lemma duration_key_examples:
  "(case snd (make_driving_api_request [(1, 2)] None ''u'' server_down 0 1) of
      Inl x \<Rightarrow> False
    | Inr d \<Rightarrow> map fst d = [''error'', ''suggestion''] \<and> \<not> has_key d ''request_duration_seconds'')
   \<and> (case snd (make_driving_api_request [(1, 2)] None ''u'' server_missing 0 1) of
      Inl x \<Rightarrow> False
    | Inr d \<Rightarrow> has_key d ''request_duration_seconds'')
   \<and> (case snd (make_driving_api_request [(1, 2)] None ''u'' server_plain 0 1) of
      Inl x \<Rightarrow> False
    | Inr d \<Rightarrow> has_key d ''request_duration_seconds'')
   \<and> (case snd (make_driving_api_request [(1, 2)] None ''u'' server_ok 0 1) of
      Inl x \<Rightarrow> False
    | Inr d \<Rightarrow> has_key d ''request_duration_seconds'')"
  using duration_key_when_returned [where post = server_down and url = "''u''" and points = "[(1, 2)]"
        and max_points = None and ?t0.0 = 0 and ?t1.0 = 1, OF refl]
    duration_key_when_returned [where post = server_missing and url = "''u''" and points = "[(1, 2)]"
        and max_points = None and ?t0.0 = 0 and ?t1.0 = 1, OF refl]
    duration_key_when_returned [where post = server_plain and url = "''u''" and points = "[(1, 2)]"
        and max_points = None and ?t0.0 = 0 and ?t1.0 = 1, OF refl]
    duration_key_when_returned [where post = server_ok and url = "''u''" and points = "[(1, 2)]"
        and max_points = None and ?t0.0 = 0 and ?t1.0 = 1, OF refl]
  by (simp add: server_down_def server_missing_def server_plain_def server_ok_def
      split: sum.splits)

text \<open>
  C10. A server that answers 200 with the JSON array \<^verbatim>\<open>[]\<close>: \<^verbatim>\<open>requests.post\<close> has not
  raised, the status is 200 and the body is JSON, and yet the caller gets no dictionary with
  \<^verbatim>\<open>request_duration_seconds\<close>. The function prints the status and then raises
  \<^verbatim>\<open>TypeError\<close>, from the assignment that was to store the duration.
\<close>

theorem duration_key_missing:
  "server_array ''u'' (format_points_for_api [(1, 2)]) request_headers
     = Response \<lparr>status_code = 200, response_text = ''[]'', json_body = Some (JArray [])\<rparr>
   \<and> make_driving_api_request [(1, 2)] None ''u'' server_array 0 1
     = ([Making_request ''u'', Sending 1, Data ''2.000000,1.000000'', Status 200], Inl TypeError)"
proof -
  have digits: "fmt6 2 = ''2.000000''" "fmt6 1 = ''1.000000''"
    by (simp_all add: fmt6_eval)
  have body: "format_points_for_api [(1, 2)] = ''2.000000,1.000000''"
    by (simp add: format_points_for_api_map format_point_def digits)
  show ?thesis
    by (simp add: make_driving_api_request_def server_array_def limit_points_cases Let_def body)
qed

text \<open>
  C2, as the code has it. The test of the status is \<^verbatim>\<open>== 200\<close>. Unless the server answers
  200 with JSON that is not an object, the function returns a dictionary, and that
  dictionary has the key \<^verbatim>\<open>error\<close> exactly when the status is not 200, or
  \<^verbatim>\<open>requests.post\<close> raised, or the JSON object of a 200 answer came with that key.
\<close>

theorem error_descriptor:
  assumes "post url (format_points_for_api (limit_points points max_points)) request_headers = out"
    and "\<not> unstorable out"
  shows "case snd (make_driving_api_request points max_points url post t0 t1) of
           Inl x \<Rightarrow> False
         | Inr d \<Rightarrow> has_key d ''error'' = (request_failed out \<or> server_sent_error_key out)"
  using assms
  by (auto simp: make_driving_api_request_def Let_def has_key_def
      AList.dom_update split: post_outcome.splits option.splits json.splits)

theorem error_descriptor_witness:
  "\<not> unstorable (server_ok ''u'' (format_points_for_api [(1, 2)]) request_headers)
   \<and> (case snd (make_driving_api_request [(1, 2)] None ''u'' server_ok 0 1) of
        Inl x \<Rightarrow> False
      | Inr d \<Rightarrow> \<not> has_key d ''error'')
   \<and> (case snd (make_driving_api_request [(1, 2)] None ''u'' server_missing 0 1) of
        Inl x \<Rightarrow> False
      | Inr d \<Rightarrow> has_key d ''error'')"
proof -
  have ok: "\<not> unstorable (server_ok ''u'' (format_points_for_api (limit_points [(1, 2)] None))
      request_headers)"
    and missing: "\<not> unstorable (server_missing ''u''
      (format_points_for_api (limit_points [(1, 2)] None)) request_headers)"
    by (simp_all add: server_ok_def server_missing_def)
  from error_descriptor [where post = server_ok and ?t0.0 = 0 and ?t1.0 = 1, OF refl ok]
    error_descriptor [where post = server_missing and ?t0.0 = 0 and ?t1.0 = 1, OF refl missing] ok
  show ?thesis
    by (simp add: server_ok_def server_missing_def has_key_def limit_points_cases
        split: sum.splits)
qed

text \<open>
  C2, as the claim is worded, fails twice. A server that answers 201, a status of the 2xx
  range, gets the error dictionary. A server that answers 200 with the JSON array
  \<^verbatim>\<open>[]\<close> makes the function raise \<^verbatim>\<open>TypeError\<close>.
\<close>

theorem error_descriptor_counterexample:
  "\<not> non_2xx_or_network_failure (server_created ''u'' (format_points_for_api [(1, 2)]) request_headers)
   \<and> snd (make_driving_api_request [(1, 2)] None ''u'' server_created 0 1)
       = Inr [(''error'', JString ''API request failed with status 201''),
              (''response_text'', JString ''{}''),
              (''request_duration_seconds'', JNumber 1)]
   \<and> snd (make_driving_api_request [(1, 2)] None ''u'' server_array 0 1) = Inl TypeError"
  by (simp add: make_driving_api_request_def server_created_def server_array_def show_int_def
      show_nat.simps digit_char_def Let_def)

end
